theory Spec2Isabelle
  imports Main "HOL-Library.Word"
begin

unbundle bit_operations_syntax

section \<open>The SPC2/SPC3 hardware clock of the mlx\_sx driver\<close>

text \<open>
  A shallow embedding of \<^verbatim>\<open>drivers/net/mlx_sx/sx_clock_spc2_3.c\<close>. The C identifiers
  are kept; a leading \<^verbatim>\<open>__\<close> is dropped, since an Isabelle name cannot start with an
  underscore (\<^verbatim>\<open>__adjtime_spc2\<close> is \<open>adjtime_spc2\<close>).

  Integers are machine words of the width the C type has on the LP64 targets of the
  driver: \<^verbatim>\<open>u8\<close>, \<^verbatim>\<open>u32\<close>/\<^verbatim>\<open>s32\<close>/\<^verbatim>\<open>int\<close>, \<^verbatim>\<open>u64\<close>/\<^verbatim>\<open>s64\<close>/\<^verbatim>\<open>long\<close>. Arithmetic wraps
  (the kernel is built with \<^verbatim>\<open>-fno-strict-overflow\<close>); \<open>sint\<close> reads a word as a signed
  value, \<open>uint\<close> and \<open>unat\<close> as an unsigned one.
\<close>

subsection \<open>Data\<close>

text \<open>
  \<^verbatim>\<open>struct timespec\<close> and \<^verbatim>\<open>sx_clock_timespec_t\<close> (the kernel's \<^verbatim>\<open>timespec\<close> or
  \<^verbatim>\<open>timespec64\<close>, chosen in \<^verbatim>\<open>sx_clock.h\<close>): \<^verbatim>\<open>tv_sec\<close> and \<^verbatim>\<open>tv_nsec\<close> are both signed
  64-bit on LP64. Storing a \<^verbatim>\<open>u32\<close> in a field extends it with zeros (\<open>ucast\<close>).
\<close>

record timespec =
  tv_sec :: "64 word"
  tv_nsec :: "64 word"

type_synonym sx_clock_timespec_t = timespec

text \<open>
  Modelled from the spec: the layout of \<^verbatim>\<open>struct ku_mtutc_reg\<close> and of
  \<^verbatim>\<open>struct ku_access_mtutc_reg\<close>, declared in a kernel/user header that is not part of
  this file. The command carries a signed 32-bit frequency adjustment, 32-bit seconds and
  nanoseconds and a 32-bit time adjustment, plus the device identifier and the operation
  TLV that \<^verbatim>\<open>sx_cmd_set_op_tlv\<close> fills in.
\<close>

record ku_mtutc_reg =
  operation :: "8 word"
  freq_adjustment :: "32 word"
  utc_sec :: "32 word"
  utc_nsec :: "32 word"
  time_adjustment :: "32 word"

datatype reg_id = MTUTC_REG_ID

datatype emad_method = EMAD_METHOD_QUERY | EMAD_METHOD_WRITE

record ku_access_mtutc_reg =
  dev_id :: "8 word"
  op_tlv :: "(reg_id \<times> emad_method) option"
  mtutc_reg :: ku_mtutc_reg

text \<open>
  \<^verbatim>\<open>struct ptp_clock_info\<close>, with the fields the file initialises. A function pointer is the
  name of the function it points to; \<open>None\<close> is \<^verbatim>\<open>NULL\<close>.
\<close>

datatype module = THIS_MODULE

datatype ptp_fn = Fn_adjfreq_spc2 | Fn_adjtime_spc2 | Fn_gettime_spc2 | Fn_settime_spc2

record ptp_clock_info =
  owner :: module
  max_adj :: "32 word"
  n_alarm :: "32 word"
  n_ext_ts :: "32 word"
  n_per_out :: "32 word"
  pps :: "32 word"
  adjfreq :: "ptp_fn option"
  adjtime :: "ptp_fn option"
  SX_CLOCK_GETTIME :: "ptp_fn option"
  SX_CLOCK_SETTIME :: "ptp_fn option"
  enable :: "ptp_fn option"

text \<open>
  What the code does to its collaborators, in the order it does it: reads of the
  memory-mapped UTC register, commands submitted to the device, kernel error messages,
  entries added to the three adjustment logs, and the registration of the clock.
\<close>

datatype event =
    Readq
  | Readl "32 word"
  | Access_reg_mtutc ku_access_mtutc_reg
  | Printk_err string "32 word"
  | Log_add_adjfreq "32 word"
  | Log_add_settime "64 word"
  | Log_add_adjtime "64 word"
  | Clock_register ptp_clock_info

text \<open>
  The device as the file sees it (\<^verbatim>\<open>struct sx_dev\<close> and its \<^verbatim>\<open>struct sx_priv\<close> in one
  record): its identifier, what \<^verbatim>\<open>__raw_readq\<close> and \<^verbatim>\<open>__raw_readl\<close> return at
  \<^verbatim>\<open>hw_clock_utc_base\<close> (the latter at a byte offset), the error code with which
  \<^verbatim>\<open>sx_ACCESS_REG_MTUTC\<close> answers a command, and the one with which \<^verbatim>\<open>sx_clock_register\<close>
  answers a registration. Error codes are C \<^verbatim>\<open>int\<close>s; zero is success.
\<close>

record sx_dev =
  device_id :: "8 word"
  raw_readq :: "64 word"
  raw_readl :: "32 word \<Rightarrow> 32 word"
  sx_ACCESS_REG_MTUTC :: "ku_access_mtutc_reg \<Rightarrow> 32 word"
  sx_clock_register :: "ptp_clock_info \<Rightarrow> 32 word"

text \<open>
  The file's two static variables, the device \<^verbatim>\<open>sx_clock_get_dev()\<close> returns, and the
  events so far. \<open>read_hw_utc_cb = None\<close> is the null pointer.
\<close>

record sx_clock =
  read_hw_utc_cb :: "(sx_dev \<Rightarrow> event list \<Rightarrow> sx_clock_timespec_t \<times> event list) option"
  sec_offset :: "32 word"
  dev :: sx_dev
  trace :: "event list"

text \<open>The statics as C initialises them when the module is loaded.\<close>

definition static_init :: "sx_dev \<Rightarrow> sx_clock" where
  "static_init d = \<lparr>read_hw_utc_cb = None, sec_offset = 0, dev = d, trace = []\<rparr>"

subsection \<open>Kernel helpers\<close>

text \<open>
  Constants and byte swaps of the Linux kernel: \<^verbatim>\<open>NSEC_PER_SEC\<close> is \<^verbatim>\<open>1000000000L\<close>;
  \<^verbatim>\<open>swab32\<close> and \<^verbatim>\<open>swab64\<close> reverse the bytes of a word.
\<close>

definition NSEC_PER_SEC :: "64 word" where
  "NSEC_PER_SEC = 1000000000"

definition INT_MAX :: "32 word" where
  "INT_MAX = 0x7fffffff"

definition swab32 :: "32 word \<Rightarrow> 32 word" where
  "swab32 x =
     push_bit 24 (x AND 0x000000ff) OR push_bit 8 (x AND 0x0000ff00) OR
     drop_bit 8 (x AND 0x00ff0000) OR drop_bit 24 (x AND 0xff000000)"

definition swab64 :: "64 word \<Rightarrow> 64 word" where
  "swab64 x =
     push_bit 56 (x AND 0x00000000000000ff) OR push_bit 40 (x AND 0x000000000000ff00) OR
     push_bit 24 (x AND 0x0000000000ff0000) OR push_bit 8 (x AND 0x00000000ff000000) OR
     drop_bit 8 (x AND 0x000000ff00000000) OR drop_bit 24 (x AND 0x0000ff0000000000) OR
     drop_bit 40 (x AND 0x00ff000000000000) OR drop_bit 56 (x AND 0xff00000000000000)"

text \<open>
  Modelled from the spec: the macro \<^verbatim>\<open>SX_CLOCK_TIMESPEC_TO_NS\<close> of \<^verbatim>\<open>sx_clock.h\<close>, which
  is not part of this file: seconds times \<open>10\<^sup>9\<close> plus nanoseconds, in 64 bits.
\<close>

definition SX_CLOCK_TIMESPEC_TO_NS :: "sx_clock_timespec_t \<Rightarrow> 64 word" where
  "SX_CLOCK_TIMESPEC_TO_NS ts = tv_sec ts * NSEC_PER_SEC + tv_nsec ts"

subsection \<open>Reading the UTC register\<close>

text \<open>
  \<^verbatim>\<open>__read_cr_space_utc\<close> returns \<open>(utc_high, utc_low)\<close>, its two output parameters in the
  order of the C signature. SPC2 passes \<^verbatim>\<open>(&sec, &nsec)\<close>, SPC3 passes \<^verbatim>\<open>(&nsec, &sec)\<close>.
\<close>

definition read_cr_space_utc :: "sx_dev \<Rightarrow> event list \<Rightarrow> (32 word \<times> 32 word) \<times> event list" where
  "read_cr_space_utc d tr =
     (let hw_utc = swab64 (raw_readq d);
          utc_low = (ucast (hw_utc AND 0xffffffff) :: 32 word);
          utc_high = (ucast (drop_bit 32 hw_utc) :: 32 word)
      in ((utc_high, utc_low), tr @ [Readq]))"

definition read_cr_space_utc_spc2 :: "sx_dev \<Rightarrow> event list \<Rightarrow> sx_clock_timespec_t \<times> event list" where
  "read_cr_space_utc_spc2 d tr =
     (case read_cr_space_utc d tr of
        ((sec, nsec), tr') \<Rightarrow> (\<lparr>tv_sec = ucast sec, tv_nsec = ucast nsec\<rparr>, tr'))"

definition read_cr_space_utc_spc3 :: "sx_dev \<Rightarrow> event list \<Rightarrow> sx_clock_timespec_t \<times> event list" where
  "read_cr_space_utc_spc3 d tr =
     (case read_cr_space_utc d tr of
        ((nsec, sec), tr') \<Rightarrow> (\<lparr>tv_sec = ucast sec, tv_nsec = ucast nsec\<rparr>, tr'))"

subsection \<open>Commands\<close>

text \<open>
  The operations of the clock. The \<^verbatim>\<open>ptp\<close> argument, which no function uses, is left out.
  Each function takes the clock and returns its \<^verbatim>\<open>int\<close> result with the clock after the
  call. \<^verbatim>\<open>__gettime_spc2\<close> and \<^verbatim>\<open>__adjtime_spc2\<close> call through \<^verbatim>\<open>__read_hw_utc_cb\<close> without
  a check: when the pointer is null the call does not return, which is \<open>None\<close>.

  In \<^verbatim>\<open>__adjtime_spc2\<close> the range test compares the \<^verbatim>\<open>s64\<close> as a signed value, \<^verbatim>\<open>nsec\<close> is a
  \<^verbatim>\<open>u64\<close>, so the addition wraps modulo \<open>2\<^sup>6\<^sup>4\<close> and the division and remainder are
  unsigned, and \<^verbatim>\<open>(int)delta\<close> keeps the low 32 bits.
\<close>

definition emit :: "event \<Rightarrow> sx_clock \<Rightarrow> sx_clock" where
  "emit e w = w\<lparr>trace := trace w @ [e]\<rparr>"

text \<open>\<^verbatim>\<open>memset(&reg_mtutc, 0, sizeof(reg_mtutc))\<close>\<close>

definition reg_mtutc_zero :: ku_access_mtutc_reg where
  "reg_mtutc_zero =
     \<lparr>dev_id = 0, op_tlv = None,
      mtutc_reg = \<lparr>operation = 0, freq_adjustment = 0, utc_sec = 0, utc_nsec = 0,
                   time_adjustment = 0\<rparr>\<rparr>"

definition write_mtutc :: "sx_clock \<Rightarrow> ku_access_mtutc_reg \<Rightarrow> string \<Rightarrow> 32 word \<times> sx_clock" where
  "write_mtutc w mtutc op =
     (let mtutc1 = mtutc\<lparr>dev_id := device_id (dev w)\<rparr>;
          mtutc2 = mtutc1\<lparr>op_tlv := Some (MTUTC_REG_ID, EMAD_METHOD_WRITE)\<rparr>;
          err = sx_ACCESS_REG_MTUTC (dev w) mtutc2;
          w1 = emit (Access_reg_mtutc mtutc2) w
      in if err \<noteq> 0 then (err, emit (Printk_err op err) w1) else (err, w1))"

definition adjfreq_spc2 :: "sx_clock \<Rightarrow> 32 word \<Rightarrow> 32 word \<times> sx_clock" where
  "adjfreq_spc2 w delta =
     (let orig_delta = delta;
          delta1 = - delta;
          reg_mtutc = reg_mtutc_zero
            \<lparr>mtutc_reg := (mtutc_reg reg_mtutc_zero)\<lparr>operation := 3, freq_adjustment := delta1\<rparr>\<rparr>
      in case write_mtutc w reg_mtutc ''adj-freq'' of
           (err, w1) \<Rightarrow>
             if err = 0 then (err, emit (Log_add_adjfreq orig_delta) w1) else (err, w1))"

definition gettime_spc2 :: "sx_clock \<Rightarrow> (32 word \<times> sx_clock_timespec_t \<times> sx_clock) option" where
  "gettime_spc2 w =
     (case read_hw_utc_cb w of
        None \<Rightarrow> None
      | Some cb \<Rightarrow> (case cb (dev w) (trace w) of (ts, tr) \<Rightarrow> Some (0, ts, w\<lparr>trace := tr\<rparr>)))"

definition settime_spc2 :: "sx_clock \<Rightarrow> sx_clock_timespec_t \<Rightarrow> 32 word \<times> sx_clock" where
  "settime_spc2 w ts =
     (let reg_mtutc = reg_mtutc_zero
            \<lparr>mtutc_reg := (mtutc_reg reg_mtutc_zero)
               \<lparr>operation := 1, utc_sec := ucast (tv_sec ts), utc_nsec := ucast (tv_nsec ts)\<rparr>\<rparr>
      in case write_mtutc w reg_mtutc ''set-time'' of
           (err, w1) \<Rightarrow>
             if err = 0
             then (err, emit (Log_add_settime (tv_sec ts * NSEC_PER_SEC + tv_nsec ts)) w1)
             else (err, w1))"

definition adjtime_spc2 :: "sx_clock \<Rightarrow> 64 word \<Rightarrow> (32 word \<times> sx_clock) option" where
  "adjtime_spc2 w delta =
     (case
        (if sint delta < - 32768 \<or> sint delta > 32767
         then (case read_hw_utc_cb w of
                 None \<Rightarrow> None
               | Some cb \<Rightarrow>
                   (case cb (dev w) (trace w) of
                      (hw_utc, tr) \<Rightarrow>
                        (let nsec = SX_CLOCK_TIMESPEC_TO_NS hw_utc;
                             nsec1 = nsec + delta;
                             hw_utc1 = hw_utc\<lparr>tv_sec := nsec1 div NSEC_PER_SEC\<rparr>;
                             hw_utc2 = hw_utc1\<lparr>tv_nsec := nsec1 mod NSEC_PER_SEC\<rparr>
                         in Some (settime_spc2 (w\<lparr>trace := tr\<rparr>) hw_utc2))))
         else (let reg_mtutc = reg_mtutc_zero
                     \<lparr>mtutc_reg := (mtutc_reg reg_mtutc_zero)
                        \<lparr>operation := 2, time_adjustment := ucast delta\<rparr>\<rparr>
               in Some (write_mtutc w reg_mtutc ''adj-time'')))
      of
        None \<Rightarrow> None
      | Some (err, w1) \<Rightarrow>
          if err = 0 then Some (err, emit (Log_add_adjtime delta) w1) else Some (err, w1))"

definition clock_info_spc2 :: ptp_clock_info where
  "clock_info_spc2 =
     \<lparr>owner = THIS_MODULE, max_adj = INT_MAX, n_alarm = 0, n_ext_ts = 0, n_per_out = 0,
      pps = 0, adjfreq = Some Fn_adjfreq_spc2, adjtime = Some Fn_adjtime_spc2,
      SX_CLOCK_GETTIME = Some Fn_gettime_spc2, SX_CLOCK_SETTIME = Some Fn_settime_spc2,
      enable = None\<rparr>"

subsection \<open>Timestamps of completion-queue entries\<close>

text \<open>
  \<^verbatim>\<open>utc_sec\<close> is a \<^verbatim>\<open>u64\<close> holding a 32-bit read. In the comparison the \<^verbatim>\<open>u8\<close> is promoted
  and compared with the \<^verbatim>\<open>long\<close> \<^verbatim>\<open>tv_sec\<close> as a signed value; the sums and differences are
  taken in 64 bits and stored in the signed \<^verbatim>\<open>tv_sec\<close>.
\<close>

definition sx_clock_cqe_ts_to_utc_spc2 ::
  "sx_clock \<Rightarrow> sx_dev \<Rightarrow> timespec \<Rightarrow> 32 word \<times> timespec \<times> sx_clock" where
  "sx_clock_cqe_ts_to_utc_spc2 w priv cqe_ts =
     (let utc_sec = (ucast (swab32 (raw_readl priv (sec_offset w))) :: 64 word);
          w1 = emit (Readl (sec_offset w)) w;
          utc_sec_8bit = (ucast (utc_sec AND 0xff) :: 8 word);
          sec = (if tv_sec cqe_ts \<le>s ucast utc_sec_8bit
                 then utc_sec - (ucast utc_sec_8bit - tv_sec cqe_ts)
                 else utc_sec - 256 + (tv_sec cqe_ts - ucast utc_sec_8bit))
      in (0, \<lparr>tv_sec = sec, tv_nsec = tv_nsec cqe_ts\<rparr>, w1))"

subsection \<open>Initialisation\<close>

text \<open>Both functions pass \<^verbatim>\<open>&__clock_info_spc2\<close> to \<^verbatim>\<open>sx_clock_register\<close>.\<close>

definition sx_clock_init_spc2 :: "sx_clock \<Rightarrow> sx_dev \<Rightarrow> 32 word \<times> sx_clock" where
  "sx_clock_init_spc2 w priv =
     (let w1 = w\<lparr>sec_offset := 0\<rparr>;
          w2 = w1\<lparr>read_hw_utc_cb := Some read_cr_space_utc_spc2\<rparr>
      in (sx_clock_register priv clock_info_spc2, emit (Clock_register clock_info_spc2) w2))"

definition sx_clock_init_spc3 :: "sx_clock \<Rightarrow> sx_dev \<Rightarrow> 32 word \<times> sx_clock" where
  "sx_clock_init_spc3 w priv =
     (let w1 = w\<lparr>sec_offset := 4\<rparr>;
          w2 = w1\<lparr>read_hw_utc_cb := Some read_cr_space_utc_spc3\<rparr>
      in (sx_clock_register priv clock_info_spc2, emit (Clock_register clock_info_spc2) w2))"

subsection \<open>Observations\<close>

text \<open>
  What a call added to the trace, the audit-log entries among some events, and the commands
  submitted to the device among them.
\<close>

definition new_events :: "sx_clock \<Rightarrow> sx_clock \<Rightarrow> event list" where
  "new_events w w' = drop (length (trace w)) (trace w')"

definition observe :: "sx_clock \<Rightarrow> 32 word \<times> sx_clock \<Rightarrow> 32 word \<times> event list" where
  "observe w r = (fst r, new_events w (snd r))"

fun is_audit :: "event \<Rightarrow> bool" where
  "is_audit (Log_add_adjfreq d) = True"
| "is_audit (Log_add_settime ns) = True"
| "is_audit (Log_add_adjtime d) = True"
| "is_audit e = False"

definition audit_entries :: "event list \<Rightarrow> event list" where
  "audit_entries evs = filter is_audit evs"

fun submitted :: "event list \<Rightarrow> ku_access_mtutc_reg list" where
  "submitted [] = []"
| "submitted (Access_reg_mtutc c # evs) = c # submitted evs"
| "submitted (e # evs) = submitted evs"

text \<open>The command \<^verbatim>\<open>__write_mtutc\<close> submits for a register content.\<close>

definition mtutc_cmd :: "sx_clock \<Rightarrow> ku_mtutc_reg \<Rightarrow> ku_access_mtutc_reg" where
  "mtutc_cmd w reg =
     \<lparr>dev_id = device_id (dev w), op_tlv = Some (MTUTC_REG_ID, EMAD_METHOD_WRITE),
      mtutc_reg = reg\<rparr>"

text \<open>A clock is initialised when one of the two register readers is bound.\<close>

definition initialised :: "sx_clock \<Rightarrow> bool" where
  "initialised w \<longleftrightarrow>
     read_hw_utc_cb w = Some read_cr_space_utc_spc2 \<or>
     read_hw_utc_cb w = Some read_cr_space_utc_spc3"

text \<open>
  The wraparound rule in the spec's words, over the integers: the full seconds now, the
  truncated seconds of the packet, and \<open>now_trunc\<close> the low 8 bits of the former.
\<close>

definition wraparound_rule :: "int \<Rightarrow> int \<Rightarrow> int" where
  "wraparound_rule now_seconds_full cqe_seconds =
     (let now_trunc = now_seconds_full mod 256
      in if now_trunc \<ge> cqe_seconds
         then now_seconds_full - (now_trunc - cqe_seconds)
         else now_seconds_full - 256 + (cqe_seconds - now_trunc))"

text \<open>The seconds \<^verbatim>\<open>sx_clock_cqe_ts_to_utc_spc2\<close> reads from the device.\<close>

definition now_seconds_full :: "sx_clock \<Rightarrow> sx_dev \<Rightarrow> int" where
  "now_seconds_full w priv = uint (swab32 (raw_readl priv (sec_offset w)))"

subsection \<open>Example devices\<close>

text \<open>
  A device whose UTC register shows \<open>sec\<close> in its upper and \<open>nsec\<close> in its lower half
  (the SPC2 layout), whose 32-bit reads return the half at the offset, and which answers
  every command with \<open>err\<close>.
\<close>

definition example_dev :: "32 word \<Rightarrow> 32 word \<Rightarrow> 32 word \<Rightarrow> sx_dev" where
  "example_dev sec nsec err =
     \<lparr>device_id = 1,
      raw_readq = swab64 (push_bit 32 (ucast sec) OR ucast nsec),
      raw_readl = (\<lambda>off. swab32 (if off = 0 then sec else nsec)),
      sx_ACCESS_REG_MTUTC = (\<lambda>c. err),
      sx_clock_register = (\<lambda>i. 0)\<rparr>"

definition example_clock :: "32 word \<Rightarrow> 32 word \<Rightarrow> 32 word \<Rightarrow> sx_clock" where
  "example_clock sec nsec err =
     snd (sx_clock_init_spc2 (static_init (example_dev sec nsec err)) (example_dev sec nsec err))"

section \<open>Properties\<close>

subsection \<open>Byte swapping and the halves of the register\<close>

lemma byte_masks64:
  "(0xff :: 64 word) = mask 8"
  "(0xff00 :: 64 word) = push_bit 8 (mask 8)"
  "(0xff0000 :: 64 word) = push_bit 16 (mask 8)"
  "(0xff000000 :: 64 word) = push_bit 24 (mask 8)"
  "(0xff00000000 :: 64 word) = push_bit 32 (mask 8)"
  "(0xff0000000000 :: 64 word) = push_bit 40 (mask 8)"
  "(0xff000000000000 :: 64 word) = push_bit 48 (mask 8)"
  "(0xff00000000000000 :: 64 word) = push_bit 56 (mask 8)"
  by (simp_all add: mask_eq_exp_minus_1)

lemma swab64_bytes:
  fixes x :: "64 word"
  shows "bit (push_bit 56 (x AND 0xff)) n \<longleftrightarrow> 56 \<le> n \<and> n < 64 \<and> bit x (n - 56)"
    and "bit (push_bit 40 (x AND 0xff00)) n \<longleftrightarrow> 48 \<le> n \<and> n < 56 \<and> bit x (n - 40)"
    and "bit (push_bit 24 (x AND 0xff0000)) n \<longleftrightarrow> 40 \<le> n \<and> n < 48 \<and> bit x (n - 24)"
    and "bit (push_bit 8 (x AND 0xff000000)) n \<longleftrightarrow> 32 \<le> n \<and> n < 40 \<and> bit x (n - 8)"
    and "bit (drop_bit 8 (x AND 0xff00000000)) n \<longleftrightarrow> 24 \<le> n \<and> n < 32 \<and> bit x (n + 8)"
    and "bit (drop_bit 24 (x AND 0xff0000000000)) n \<longleftrightarrow> 16 \<le> n \<and> n < 24 \<and> bit x (n + 24)"
    and "bit (drop_bit 40 (x AND 0xff000000000000)) n \<longleftrightarrow> 8 \<le> n \<and> n < 16 \<and> bit x (n + 40)"
    and "bit (drop_bit 56 (x AND 0xff00000000000000)) n \<longleftrightarrow> n < 8 \<and> bit x (n + 56)"
  unfolding byte_masks64
  by (auto simp: bit_simps add.commute)

lemma bit_swab64:
  "bit (swab64 x) n \<longleftrightarrow>
     (56 \<le> n \<and> n < 64 \<and> bit x (n - 56)) \<or> (48 \<le> n \<and> n < 56 \<and> bit x (n - 40)) \<or>
     (40 \<le> n \<and> n < 48 \<and> bit x (n - 24)) \<or> (32 \<le> n \<and> n < 40 \<and> bit x (n - 8)) \<or>
     (24 \<le> n \<and> n < 32 \<and> bit x (n + 8)) \<or> (16 \<le> n \<and> n < 24 \<and> bit x (n + 24)) \<or>
     (8 \<le> n \<and> n < 16 \<and> bit x (n + 40)) \<or> (n < 8 \<and> bit x (n + 56))"
  unfolding swab64_def bit_or_iff swab64_bytes by (rule refl)

lemma bit_swab64_byte:
  assumes "k < 8"
  shows "bit (swab64 x) k \<longleftrightarrow> bit x (k + 56)"
    and "bit (swab64 x) (k + 8) \<longleftrightarrow> bit x (k + 48)"
    and "bit (swab64 x) (k + 16) \<longleftrightarrow> bit x (k + 40)"
    and "bit (swab64 x) (k + 24) \<longleftrightarrow> bit x (k + 32)"
    and "bit (swab64 x) (k + 32) \<longleftrightarrow> bit x (k + 24)"
    and "bit (swab64 x) (k + 40) \<longleftrightarrow> bit x (k + 16)"
    and "bit (swab64 x) (k + 48) \<longleftrightarrow> bit x (k + 8)"
    and "bit (swab64 x) (k + 56) \<longleftrightarrow> bit x k"
  using assms by (simp_all add: bit_swab64 add.commute)

lemma swab64_swab64: "swab64 (swab64 x) = x"
proof (rule bit_word_eqI)
  fix n assume "n < LENGTH(64)"
  then have n: "n < 64" by simp
  have b: "bit (swab64 (swab64 x)) (k + j) \<longleftrightarrow> bit x (k + j)"
    if "k < 8" "j \<in> {0, 8, 16, 24, 32, 40, 48, 56}" for k j
    using that by (auto simp add: bit_swab64_byte)
  have "n mod 8 < 8" "n div 8 * 8 \<in> {0, 8, 16, 24, 32, 40, 48, 56}"
    using n by auto
  from b [OF this] show "bit (swab64 (swab64 x)) n \<longleftrightarrow> bit x n"
    by simp
qed

lemma low_half:
  "(ucast (ucast ((v :: 64 word) AND 0xffffffff) :: 32 word) :: 64 word) = take_bit 32 v"
proof -
  have m: "(0xffffffff :: 64 word) = mask 32"
    by (simp add: mask_eq_exp_minus_1)
  show ?thesis unfolding m
    by (rule bit_word_eqI) (auto simp: bit_simps)
qed

lemma high_half:
  "(ucast (ucast (drop_bit 32 (v :: 64 word)) :: 32 word) :: 64 word) = drop_bit 32 v"
  by (rule bit_word_eqI) (auto simp: bit_simps dest: bit_imp_le_length)

lemma uint_halves:
  fixes v :: "64 word"
  shows "uint (drop_bit 32 v) = uint v div 2 ^ 32" "uint (take_bit 32 v) = uint v mod 2 ^ 32"
  by (simp_all add: drop_bit_eq_div take_bit_eq_mod uint_div_distrib uint_mod_distrib)

lemma read_cr_space_utc_spc2_eq:
  "read_cr_space_utc_spc2 d tr =
     (\<lparr>tv_sec = drop_bit 32 (swab64 (raw_readq d)),
       tv_nsec = take_bit 32 (swab64 (raw_readq d))\<rparr>, tr @ [Readq])"
  by (simp add: read_cr_space_utc_spc2_def read_cr_space_utc_def Let_def low_half high_half)

lemma read_cr_space_utc_spc3_eq:
  "read_cr_space_utc_spc3 d tr =
     (\<lparr>tv_sec = take_bit 32 (swab64 (raw_readq d)),
       tv_nsec = drop_bit 32 (swab64 (raw_readq d))\<rparr>, tr @ [Readq])"
  by (simp add: read_cr_space_utc_spc3_def read_cr_space_utc_def Let_def low_half high_half)

text \<open>
  C6. Let \<open>v\<close> be any 64-bit register word in host order, that is, the device returns
  \<open>swab64 v\<close> to the raw read. The SPC2 reader puts the most-significant 32 bits of \<open>v\<close>
  (\<open>v div 2\<^sup>3\<^sup>2\<close>) into the seconds and the least-significant 32 bits (\<open>v mod 2\<^sup>3\<^sup>2\<close>) into the
  nanoseconds; the SPC3 reader does the opposite; so the seconds of the one are the
  nanoseconds of the other.
\<close>

theorem decode_spc2_spc3_mirror:
  "fst (read_cr_space_utc_spc2 (d\<lparr>raw_readq := swab64 v\<rparr>) tr)
     = \<lparr>tv_sec = drop_bit 32 v, tv_nsec = take_bit 32 v\<rparr> \<and>
   fst (read_cr_space_utc_spc3 (d\<lparr>raw_readq := swab64 v\<rparr>) tr)
     = \<lparr>tv_sec = take_bit 32 v, tv_nsec = drop_bit 32 v\<rparr> \<and>
   uint (drop_bit 32 v) = uint v div 2 ^ 32 \<and>
   uint (take_bit 32 v) = uint v mod 2 ^ 32 \<and>
   tv_sec (fst (read_cr_space_utc_spc2 (d\<lparr>raw_readq := swab64 v\<rparr>) tr))
     = tv_nsec (fst (read_cr_space_utc_spc3 (d\<lparr>raw_readq := swab64 v\<rparr>) tr)) \<and>
   tv_nsec (fst (read_cr_space_utc_spc2 (d\<lparr>raw_readq := swab64 v\<rparr>) tr))
     = tv_sec (fst (read_cr_space_utc_spc3 (d\<lparr>raw_readq := swab64 v\<rparr>) tr))"
  by (simp add: read_cr_space_utc_spc2_eq read_cr_space_utc_spc3_eq swab64_swab64 uint_halves)

subsection \<open>Reconstructing the seconds of a packet timestamp\<close>

lemma ff_mask: "(0xff :: 64 word) = mask 8"
  by (simp add: mask_eq_exp_minus_1)

lemma uint_ucast_32_64: "uint (ucast (r :: 32 word) :: 64 word) = uint r"
  by (simp add: uint_up_ucast is_up)

lemma uint_trunc8:
  "uint (ucast (ucast ((ucast (r :: 32 word) :: 64 word) AND 0xff) :: 8 word) :: 64 word)
     = uint r mod 256"
proof -
  have "uint (ucast (ucast ((ucast r :: 64 word) AND 0xff) :: 8 word) :: 64 word)
        = uint (ucast ((ucast r :: 64 word) AND 0xff) :: 8 word)"
    by (simp add: uint_up_ucast is_up)
  also have "\<dots> = uint ((ucast r :: 64 word) AND 0xff) mod 256"
    by (simp add: unsigned_ucast_eq take_bit_eq_mod)
  also have "uint ((ucast r :: 64 word) AND 0xff) = uint (ucast r :: 64 word) mod 256"
    unfolding ff_mask
    by (simp flip: take_bit_eq_mask
          add: unsigned_take_bit_eq take_bit_eq_mod uint_mod_distrib)
  finally show ?thesis by (simp add: uint_ucast_32_64)
qed

lemma sint_trunc8:
  "sint (ucast (ucast ((ucast (r :: 32 word) :: 64 word) AND 0xff) :: 8 word) :: 64 word)
     = uint r mod 256"
proof -
  let ?t = "ucast (ucast ((ucast (r :: 32 word) :: 64 word) AND 0xff) :: 8 word) :: 64 word"
  have "- (2 ^ 63) \<le> uint ?t" "uint ?t < 2 ^ 63"
    using uint_trunc8 [of r] by simp_all
  then have "signed_take_bit 63 (uint ?t) = uint ?t"
    by (rule signed_take_bit_int_eq_self)
  then have "sint ?t = uint ?t"
    by (simp add: sint_uint)
  then show ?thesis by (simp add: uint_trunc8)
qed

lemma sint_of_int_64:
  assumes "- (2 ^ 63) \<le> i" "i < 2 ^ 63"
  shows "sint (word_of_int i :: 64 word) = i"
proof -
  from assms have "signed_take_bit 63 i = i"
    by (rule signed_take_bit_int_eq_self)
  then show ?thesis by (simp add: signed_of_int)
qed

lemma reconcile_le:
  "(c \<le>s (ucast (ucast ((ucast (r :: 32 word) :: 64 word) AND 0xff) :: 8 word) :: 64 word))
     \<longleftrightarrow> sint c \<le> uint r mod 256"
  by (simp only: word_sle_eq sint_trunc8)

lemma reconcile_then:
  "(ucast (r :: 32 word) :: 64 word)
     - ((ucast (ucast ((ucast r :: 64 word) AND 0xff) :: 8 word) :: 64 word) - c)
   = word_of_int (uint r - (uint r mod 256 - sint c))"
proof -
  have "word_of_int (uint r - (uint r mod 256 - sint c)) =
        (word_of_int (uint (ucast r :: 64 word)) :: 64 word)
        - (word_of_int (uint (ucast (ucast ((ucast r :: 64 word) AND 0xff) :: 8 word) :: 64 word))
           - word_of_int (sint c))"
    by (simp only: uint_ucast_32_64 uint_trunc8 of_int_diff)
  then show ?thesis by simp
qed

lemma reconcile_else:
  "(ucast (r :: 32 word) :: 64 word) - 256
     + (c - (ucast (ucast ((ucast r :: 64 word) AND 0xff) :: 8 word) :: 64 word))
   = word_of_int (uint r - 256 + (sint c - uint r mod 256))"
proof -
  have "word_of_int (uint r - 256 + (sint c - uint r mod 256)) =
        (word_of_int (uint (ucast r :: 64 word)) :: 64 word) - 256
        + (word_of_int (sint c)
           - word_of_int (uint (ucast (ucast ((ucast r :: 64 word) AND 0xff) :: 8 word) :: 64 word)))"
    by (simp only: uint_ucast_32_64 uint_trunc8 of_int_diff of_int_add of_int_numeral)
  then show ?thesis by simp
qed

lemma cqe_ts_to_utc_eq:
  "sx_clock_cqe_ts_to_utc_spc2 w priv cqe_ts =
     (0, \<lparr>tv_sec = word_of_int (wraparound_rule (now_seconds_full w priv) (sint (tv_sec cqe_ts))),
           tv_nsec = tv_nsec cqe_ts\<rparr>,
      w\<lparr>trace := trace w @ [Readl (sec_offset w)]\<rparr>)"
  by (simp add: sx_clock_cqe_ts_to_utc_spc2_def Let_def reconcile_le reconcile_then
        reconcile_else wraparound_rule_def now_seconds_full_def emit_def)

lemma wraparound_rule_cases:
  obtains r q where "0 \<le> r" "r < 256" "n = 256 * q + r" "0 \<le> n \<longrightarrow> r \<le> n"
    "wraparound_rule n c = (if c \<le> r then n - r + c else n - r - 256 + c)"
proof -
  define r q where "r = n mod 256" and "q = n div 256"
  have r: "0 \<le> r" "r < 256" and n: "n = 256 * q + r"
    by (simp_all add: r_def q_def)
  have le: "0 \<le> n \<longrightarrow> r \<le> n"
    by (simp add: r_def zmod_le_nonneg_dividend)
  have w: "wraparound_rule n c = (if c \<le> r then n - r + c else n - r - 256 + c)"
    by (simp add: wraparound_rule_def Let_def r_def)
  show thesis
    by (rule that [OF r n le w])
qed

lemma wraparound_rule_mod: "wraparound_rule n c mod 256 = c mod 256"
proof -
  have a: "(256 * k + c) mod 256 = c mod 256" for k :: int
    by simp
  obtain r q where n: "n = 256 * q + r"
    and w: "wraparound_rule n c = (if c \<le> r then n - r + c else n - r - 256 + c)"
    by (rule wraparound_rule_cases)
  have "n - r + c = 256 * q + c" "n - r - 256 + c = 256 * (q - 1) + c"
    using n by simp_all
  with w have "wraparound_rule n c = 256 * q + c \<or> wraparound_rule n c = 256 * (q - 1) + c"
    by (simp split: if_splits)
  then show ?thesis
    by (elim disjE) (simp_all only: a)
qed

lemma wraparound_rule_window:
  assumes "0 \<le> c" "c < 256"
  shows "n - 255 \<le> wraparound_rule n c" "wraparound_rule n c \<le> n"
proof -
  obtain r q where "0 \<le> r" "r < 256" 
    "wraparound_rule n c = (if c \<le> r then n - r + c else n - r - 256 + c)"
    by (rule wraparound_rule_cases)
  with assms show "n - 255 \<le> wraparound_rule n c" "wraparound_rule n c \<le> n"
    by (simp_all split: if_splits)
qed

lemma wraparound_rule_bounds:
  assumes "0 \<le> n" "n < 2 ^ 32" "c < 2 ^ 63 - 2 ^ 32" "- (2 ^ 63) \<le> c"
  shows "- (2 ^ 63) \<le> wraparound_rule n c" "wraparound_rule n c < 2 ^ 63"
proof -
  obtain r q where "0 \<le> r" "r < 256" "0 \<le> n \<longrightarrow> r \<le> n"
    "wraparound_rule n c = (if c \<le> r then n - r + c else n - r - 256 + c)"
    by (rule wraparound_rule_cases)
  with assms show "- (2 ^ 63) \<le> wraparound_rule n c" "wraparound_rule n c < 2 ^ 63"
    by (simp_all split: if_splits)
qed

lemma now_seconds_full_range:
  "0 \<le> now_seconds_full w priv" "now_seconds_full w priv < 2 ^ 32"
  using uint_lt2p [of "swab32 (raw_readl priv (sec_offset w))"]
  by (simp_all add: now_seconds_full_def)

lemma sint_cqe_ts_to_utc:
  assumes "sint (tv_sec cqe_ts) < 2 ^ 63 - 2 ^ 32"
  shows "sint (tv_sec (fst (snd (sx_clock_cqe_ts_to_utc_spc2 w priv cqe_ts))))
           = wraparound_rule (now_seconds_full w priv) (sint (tv_sec cqe_ts))"
proof -
  have c: "- (2 ^ 63) \<le> sint (tv_sec cqe_ts)"
    using sint_ge [of "tv_sec cqe_ts"] by simp
  have "sint (word_of_int (wraparound_rule (now_seconds_full w priv) (sint (tv_sec cqe_ts)))
          :: 64 word)
        = wraparound_rule (now_seconds_full w priv) (sint (tv_sec cqe_ts))"
    by (rule sint_of_int_64)
      (rule wraparound_rule_bounds [OF now_seconds_full_range assms c])+
  then show ?thesis
    by (simp add: cqe_ts_to_utc_eq)
qed

text \<open>
  C2. The seconds returned are the wraparound rule applied to the seconds read from the device
  and the seconds of the packet (compared as signed values), computed modulo \<open>2\<^sup>6\<^sup>4\<close>; read
  as a signed number they are exactly the rule's value for every packet timestamp whose
  seconds are below \<open>2\<^sup>6\<^sup>3 - 2\<^sup>3\<^sup>2\<close>, among them all truncated (8-bit) ones. The nanoseconds
  are those of the packet, and the call returns 0.
\<close>

theorem cqe_ts_to_utc_wraparound:
  "(case sx_clock_cqe_ts_to_utc_spc2 w priv cqe_ts of
      (err, utc, w') \<Rightarrow>
        err = 0 \<and> tv_nsec utc = tv_nsec cqe_ts \<and>
        tv_sec utc =
          word_of_int (wraparound_rule (now_seconds_full w priv) (sint (tv_sec cqe_ts))) \<and>
        (sint (tv_sec cqe_ts) < 2 ^ 63 - 2 ^ 32 \<longrightarrow>
           sint (tv_sec utc) = wraparound_rule (now_seconds_full w priv) (sint (tv_sec cqe_ts))))"
  using sint_cqe_ts_to_utc [of cqe_ts w priv]
  by (simp add: cqe_ts_to_utc_eq)

lemma example_now_seconds_full:
  "now_seconds_full (example_clock 100106 5 0) (example_dev 100106 5 0) = 100106"
  by (simp add: now_seconds_full_def example_clock_def example_dev_def sx_clock_init_spc2_def
        static_init_def emit_def Let_def swab32_def)

theorem cqe_ts_to_utc_wraparound_witness:
  "sint (250 :: 64 word) < 2 ^ 63 - 2 ^ 32 \<and>
   (100106 :: int) mod 256 = 10 \<and>
   fst (snd (sx_clock_cqe_ts_to_utc_spc2 (example_clock 100106 5 0) (example_dev 100106 5 0)
       \<lparr>tv_sec = 250, tv_nsec = 77\<rparr>))
     = \<lparr>tv_sec = 100090, tv_nsec = 77\<rparr>"
  using cqe_ts_to_utc_wraparound
    [where w = "example_clock 100106 5 0" and priv = "example_dev 100106 5 0"
       and cqe_ts = "\<lparr>tv_sec = 250, tv_nsec = 77\<rparr>"]
  by (auto simp add: example_now_seconds_full wraparound_rule_def split: prod.splits)

text \<open>
  C10. For a packet timestamp whose seconds are in \<open>0..255\<close>, the seconds returned are
  congruent to them modulo 256 and lie at most 255 below, and never above, the seconds read
  from the device.
\<close>

theorem cqe_ts_to_utc_window:
  assumes "0 \<le> sint (tv_sec cqe_ts)" "sint (tv_sec cqe_ts) < 256"
  shows "sint (tv_sec (fst (snd (sx_clock_cqe_ts_to_utc_spc2 w priv cqe_ts)))) mod 256
           = sint (tv_sec cqe_ts) \<and>
         now_seconds_full w priv - 255
           \<le> sint (tv_sec (fst (snd (sx_clock_cqe_ts_to_utc_spc2 w priv cqe_ts)))) \<and>
         sint (tv_sec (fst (snd (sx_clock_cqe_ts_to_utc_spc2 w priv cqe_ts))))
           \<le> now_seconds_full w priv"
proof -
  have "sint (tv_sec cqe_ts) < 2 ^ 63 - 2 ^ 32"
    using assms(2) by simp
  then have s: "sint (tv_sec (fst (snd (sx_clock_cqe_ts_to_utc_spc2 w priv cqe_ts))))
           = wraparound_rule (now_seconds_full w priv) (sint (tv_sec cqe_ts))"
    by (rule sint_cqe_ts_to_utc)
  have "sint (tv_sec cqe_ts) mod 256 = sint (tv_sec cqe_ts)"
    using assms by simp
  then show ?thesis
    unfolding s using wraparound_rule_window [OF assms, of "now_seconds_full w priv"]
    by (simp add: wraparound_rule_mod)
qed

lemma example_now_seconds_small:
  "now_seconds_full (example_clock 10 5 0) (example_dev 10 5 0) = 10"
  by (simp add: now_seconds_full_def example_clock_def example_dev_def sx_clock_init_spc2_def
        static_init_def emit_def Let_def swab32_def)

theorem cqe_ts_to_utc_window_witness:
  "0 \<le> sint (250 :: 64 word) \<and> sint (250 :: 64 word) < 256 \<and>
   sint (tv_sec (fst (snd (sx_clock_cqe_ts_to_utc_spc2 (example_clock 10 5 0)
       (example_dev 10 5 0) \<lparr>tv_sec = 250, tv_nsec = 77\<rparr>)))) mod 256 = 250 \<and>
   (10 :: int) - 255
     \<le> sint (tv_sec (fst (snd (sx_clock_cqe_ts_to_utc_spc2 (example_clock 10 5 0)
       (example_dev 10 5 0) \<lparr>tv_sec = 250, tv_nsec = 77\<rparr>)))) \<and>
   sint (tv_sec (fst (snd (sx_clock_cqe_ts_to_utc_spc2 (example_clock 10 5 0)
       (example_dev 10 5 0) \<lparr>tv_sec = 250, tv_nsec = 77\<rparr>)))) \<le> 10"
  using cqe_ts_to_utc_window
    [where w = "example_clock 10 5 0" and priv = "example_dev 10 5 0"
       and cqe_ts = "\<lparr>tv_sec = 250, tv_nsec = 77\<rparr>"]
  by (simp add: example_now_seconds_small)

subsection \<open>Adjustment commands\<close>

lemma new_events_append [simp]: "new_events w (w'\<lparr>trace := trace w @ evs\<rparr>) = evs"
  by (simp add: new_events_def)

lemma write_mtutc_eq:
  "write_mtutc w m op =
     (sx_ACCESS_REG_MTUTC (dev w) (mtutc_cmd w (mtutc_reg m)),
      w\<lparr>trace := trace w @ Access_reg_mtutc (mtutc_cmd w (mtutc_reg m)) #
           (if sx_ACCESS_REG_MTUTC (dev w) (mtutc_cmd w (mtutc_reg m)) = 0 then []
            else [Printk_err op (sx_ACCESS_REG_MTUTC (dev w) (mtutc_cmd w (mtutc_reg m)))])\<rparr>)"
proof -
  have "m\<lparr>dev_id := device_id (dev w), op_tlv := Some (MTUTC_REG_ID, EMAD_METHOD_WRITE)\<rparr>
        = mtutc_cmd w (mtutc_reg m)"
    by (simp add: mtutc_cmd_def)
  then show ?thesis
    by (simp add: write_mtutc_def emit_def Let_def)
qed

lemma adjfreq_spc2_eq:
  "adjfreq_spc2 w delta =
     (sx_ACCESS_REG_MTUTC (dev w)
        (mtutc_cmd w \<lparr>operation = 3, freq_adjustment = - delta, utc_sec = 0, utc_nsec = 0,
                       time_adjustment = 0\<rparr>),
      w\<lparr>trace := trace w @
           Access_reg_mtutc
             (mtutc_cmd w \<lparr>operation = 3, freq_adjustment = - delta, utc_sec = 0, utc_nsec = 0,
                            time_adjustment = 0\<rparr>) #
           (if sx_ACCESS_REG_MTUTC (dev w)
                 (mtutc_cmd w \<lparr>operation = 3, freq_adjustment = - delta, utc_sec = 0,
                                utc_nsec = 0, time_adjustment = 0\<rparr>) = 0
            then [Log_add_adjfreq delta]
            else [Printk_err ''adj-freq''
                    (sx_ACCESS_REG_MTUTC (dev w)
                       (mtutc_cmd w \<lparr>operation = 3, freq_adjustment = - delta, utc_sec = 0,
                                      utc_nsec = 0, time_adjustment = 0\<rparr>))])\<rparr>)"
  by (simp add: adjfreq_spc2_def write_mtutc_eq reg_mtutc_zero_def emit_def Let_def)

lemma settime_spc2_eq:
  "settime_spc2 w ts =
     (sx_ACCESS_REG_MTUTC (dev w)
        (mtutc_cmd w \<lparr>operation = 1, freq_adjustment = 0, utc_sec = ucast (tv_sec ts),
                       utc_nsec = ucast (tv_nsec ts), time_adjustment = 0\<rparr>),
      w\<lparr>trace := trace w @
           Access_reg_mtutc
             (mtutc_cmd w \<lparr>operation = 1, freq_adjustment = 0, utc_sec = ucast (tv_sec ts),
                            utc_nsec = ucast (tv_nsec ts), time_adjustment = 0\<rparr>) #
           (if sx_ACCESS_REG_MTUTC (dev w)
                 (mtutc_cmd w \<lparr>operation = 1, freq_adjustment = 0, utc_sec = ucast (tv_sec ts),
                                utc_nsec = ucast (tv_nsec ts), time_adjustment = 0\<rparr>) = 0
            then [Log_add_settime (tv_sec ts * NSEC_PER_SEC + tv_nsec ts)]
            else [Printk_err ''set-time''
                    (sx_ACCESS_REG_MTUTC (dev w)
                       (mtutc_cmd w \<lparr>operation = 1, freq_adjustment = 0,
                                      utc_sec = ucast (tv_sec ts),
                                      utc_nsec = ucast (tv_nsec ts), time_adjustment = 0\<rparr>))])\<rparr>)"
  by (simp add: settime_spc2_def write_mtutc_eq reg_mtutc_zero_def emit_def Let_def)

lemma adjtime_spc2_in_range:
  assumes "- 32768 \<le> sint delta" "sint delta \<le> 32767"
  shows "adjtime_spc2 w delta =
     Some (sx_ACCESS_REG_MTUTC (dev w)
        (mtutc_cmd w \<lparr>operation = 2, freq_adjustment = 0, utc_sec = 0, utc_nsec = 0,
                       time_adjustment = ucast delta\<rparr>),
      w\<lparr>trace := trace w @
           Access_reg_mtutc
             (mtutc_cmd w \<lparr>operation = 2, freq_adjustment = 0, utc_sec = 0, utc_nsec = 0,
                       time_adjustment = ucast delta\<rparr>) #
           (if sx_ACCESS_REG_MTUTC (dev w)
                 (mtutc_cmd w \<lparr>operation = 2, freq_adjustment = 0, utc_sec = 0, utc_nsec = 0,
                       time_adjustment = ucast delta\<rparr>) = 0
            then [Log_add_adjtime delta]
            else [Printk_err ''adj-time''
                    (sx_ACCESS_REG_MTUTC (dev w)
                       (mtutc_cmd w \<lparr>operation = 2, freq_adjustment = 0, utc_sec = 0, utc_nsec = 0,
                       time_adjustment = ucast delta\<rparr>))])\<rparr>)"
  using assms
  by (simp add: adjtime_spc2_def write_mtutc_eq reg_mtutc_zero_def emit_def Let_def)


lemma mtutc_cmd_trace [simp]: "mtutc_cmd (w\<lparr>trace := tr\<rparr>) reg = mtutc_cmd w reg"
  by (simp add: mtutc_cmd_def)

lemma adjtime_spc2_fallback:
  assumes "sint delta < - 32768 \<or> 32767 < sint delta"
    and "read_hw_utc_cb w = Some cb"
    and "cb (dev w) (trace w) = (hw_utc, trace w @ rd)"
  shows "adjtime_spc2 w delta =
     (let nsec = SX_CLOCK_TIMESPEC_TO_NS hw_utc + delta;
          ts = \<lparr>tv_sec = nsec div NSEC_PER_SEC, tv_nsec = nsec mod NSEC_PER_SEC\<rparr>;
          cmd = mtutc_cmd w \<lparr>operation = 1, freq_adjustment = 0, utc_sec = ucast (tv_sec ts),
                              utc_nsec = ucast (tv_nsec ts), time_adjustment = 0\<rparr>;
          err = sx_ACCESS_REG_MTUTC (dev w) cmd
      in Some (err,
           w\<lparr>trace := trace w @ rd @ Access_reg_mtutc cmd #
                (if err = 0
                 then [Log_add_settime (tv_sec ts * NSEC_PER_SEC + tv_nsec ts),
                       Log_add_adjtime delta]
                 else [Printk_err ''set-time'' err])\<rparr>))"
  using assms
  by (auto simp add: adjtime_spc2_def settime_spc2_eq emit_def Let_def)

lemma sint_ucast_64_32:
  assumes "- 32768 \<le> sint (delta :: 64 word)" "sint delta \<le> 32767"
  shows "sint (ucast delta :: 32 word) = sint delta"
proof -
  have "(ucast delta :: 32 word) = scast delta"
    by (simp add: down_cast_same is_down)
  then have "sint (ucast delta :: 32 word) = signed_take_bit 31 (sint delta)"
    by (simp add: signed_scast_eq)
  also have "\<dots> = sint delta"
    by (rule signed_take_bit_int_eq_self) (use assms in simp_all)
  finally show ?thesis .
qed

lemma sint_minus_32:
  assumes "sint (delta :: 32 word) \<noteq> - (2 ^ 31)"
  shows "sint (- delta) = - sint delta"
proof -
  have "- (2 ^ 31) \<le> sint delta" "sint delta < 2 ^ 31"
    using sint_ge [of delta] sint_lt [of delta] by simp_all
  with assms have "- (2 ^ 31) \<le> - sint delta" "- sint delta < 2 ^ 31"
    by simp_all
  then have "signed_take_bit 31 (- sint delta) = - sint delta"
    by (rule signed_take_bit_int_eq_self)
  then show ?thesis
    by (simp add: sint_word_minus)
qed

lemma minus_int_min_32:
  assumes "sint (delta :: 32 word) = - (2 ^ 31)"
  shows "- delta = delta"
proof -
  have "delta = word_of_int (sint delta)"
    by simp
  also have "\<dots> = (0x80000000 :: 32 word)"
    unfolding assms by simp
  finally show ?thesis
    by simp
qed

lemma uint_NSEC_PER_SEC: "uint NSEC_PER_SEC = 1000000000"
  by (simp add: NSEC_PER_SEC_def)

lemma normalise_ns:
  fixes n :: "64 word"
  shows "uint (n mod NSEC_PER_SEC) < 1000000000"
    and "uint (n div NSEC_PER_SEC) * 1000000000 + uint (n mod NSEC_PER_SEC) = uint n"
  by (simp_all add: uint_mod_distrib uint_div_distrib uint_NSEC_PER_SEC)

lemma uint_timespec_to_ns_plus:
  "uint (SX_CLOCK_TIMESPEC_TO_NS hw + delta)
     = (uint (tv_sec hw) * 1000000000 + uint (tv_nsec hw) + sint delta) mod 2 ^ 64"
proof -
  have "SX_CLOCK_TIMESPEC_TO_NS hw + delta
        = word_of_int (uint (tv_sec hw) * 1000000000 + uint (tv_nsec hw) + sint delta)"
    by (simp add: SX_CLOCK_TIMESPEC_TO_NS_def NSEC_PER_SEC_def)
  then show ?thesis
    by (simp only: uint_word_of_int_eq take_bit_eq_mod) simp
qed

lemma timespec_update_both:
  "(hw :: timespec)\<lparr>tv_sec := a, tv_nsec := b\<rparr> = \<lparr>tv_sec = a, tv_nsec = b\<rparr>"
  by (cases hw) simp

lemma gettime_spc2_Some:
  assumes "gettime_spc2 w = Some (e, hw, w1)"
  obtains cb where "read_hw_utc_cb w = Some cb" "cb (dev w) (trace w) = (hw, trace w1)"
    "w1 = w\<lparr>trace := trace w1\<rparr>" "e = 0"
  using assms
  by (auto simp add: gettime_spc2_def split: option.splits prod.splits)

lemma initialised_cb:
  assumes "initialised w"
  obtains cb hw where "read_hw_utc_cb w = Some cb" "cb (dev w) (trace w) = (hw, trace w @ [Readq])"
  using assms
  by (auto simp add: initialised_def read_cr_space_utc_spc2_eq read_cr_space_utc_spc3_eq)

lemma example_clock_simps:
  "read_hw_utc_cb (example_clock sec nsec err) = Some read_cr_space_utc_spc2"
  "sec_offset (example_clock sec nsec err) = 0"
  "dev (example_clock sec nsec err) = example_dev sec nsec err"
  "trace (example_clock sec nsec err) = [Clock_register clock_info_spc2]"
  "initialised (example_clock sec nsec err)"
  by (simp_all add: example_clock_def sx_clock_init_spc2_def static_init_def emit_def Let_def
        initialised_def)

lemma example_dev_simps:
  "device_id (example_dev sec nsec err) = 1"
  "sx_ACCESS_REG_MTUTC (example_dev sec nsec err) c = err"
  by (simp_all add: example_dev_def)

lemma example_high_half:
  fixes sec nsec :: "32 word"
  shows "drop_bit 32 (push_bit 32 (ucast sec) OR ucast nsec :: 64 word) = ucast sec"
  by (rule bit_word_eqI) (auto simp: bit_simps dest: bit_imp_le_length)

lemma example_low_half:
  fixes sec nsec :: "32 word"
  shows "take_bit 32 (push_bit 32 (ucast sec) OR ucast nsec :: 64 word) = ucast nsec"
  by (rule bit_word_eqI) (auto simp: bit_simps dest: bit_imp_le_length)

lemma example_read:
  "read_cr_space_utc_spc2 (example_dev sec nsec err) tr =
     (\<lparr>tv_sec = ucast sec, tv_nsec = ucast nsec\<rparr>, tr @ [Readq])"
  unfolding read_cr_space_utc_spc2_eq example_dev_def
  by (simp only: sx_dev.simps swab64_swab64 example_high_half example_low_half)

lemma example_gettime:
  "gettime_spc2 (example_clock sec nsec err) =
     Some (0, \<lparr>tv_sec = ucast sec, tv_nsec = ucast nsec\<rparr>,
           emit Readq (example_clock sec nsec err))"
  by (simp add: gettime_spc2_def example_clock_simps example_read emit_def)

text \<open>
  C4. \<^verbatim>\<open>__adjfreq_spc2\<close> submits one command, whose frequency adjustment is the 32-bit
  negation of \<open>delta\<close>; when the command succeeds the log entry carries \<open>delta\<close> itself.
  Read as signed numbers, the stored value is \<open>- delta\<close> for every \<open>delta\<close> except the
  least one, \<open>- 2\<^sup>3\<^sup>1\<close>, whose negation wraps around to itself.
\<close>

theorem adjfreq_negates_delta:
  "(let cmd = mtutc_cmd w \<lparr>operation = 3, freq_adjustment = - delta, utc_sec = 0, utc_nsec = 0,
                             time_adjustment = 0\<rparr>;
        err = sx_ACCESS_REG_MTUTC (dev w) cmd
    in observe w (adjfreq_spc2 w delta) =
         (err, Access_reg_mtutc cmd #
               (if err = 0 then [Log_add_adjfreq delta] else [Printk_err ''adj-freq'' err]))) \<and>
   (sint delta \<noteq> - (2 ^ 31) \<longrightarrow> sint (- delta) = - sint delta) \<and>
   (sint delta = - (2 ^ 31) \<longrightarrow> - delta = delta)"
  by (simp add: observe_def adjfreq_spc2_eq Let_def sint_minus_32 minus_int_min_32)

theorem adjfreq_negates_delta_witness:
  "sint (1000 :: 32 word) \<noteq> - (2 ^ 31) \<and>
   observe (example_clock 100 500000000 0) (adjfreq_spc2 (example_clock 100 500000000 0) 1000) =
     (0, [Access_reg_mtutc
            \<lparr>dev_id = 1, op_tlv = Some (MTUTC_REG_ID, EMAD_METHOD_WRITE),
             mtutc_reg = \<lparr>operation = 3, freq_adjustment = - 1000, utc_sec = 0, utc_nsec = 0,
                          time_adjustment = 0\<rparr>\<rparr>,
          Log_add_adjfreq 1000]) \<and>
   sint (- 1000 :: 32 word) = - 1000"
  using adjfreq_negates_delta [where w = "example_clock 100 500000000 0" and delta = 1000]
  by (simp add: Let_def mtutc_cmd_def example_clock_def example_dev_def sx_clock_init_spc2_def
        static_init_def emit_def)

theorem adjfreq_int_min_counterexample:
  "observe (example_clock 100 500000000 0)
     (adjfreq_spc2 (example_clock 100 500000000 0) (- 2147483648)) =
     (0, [Access_reg_mtutc
            \<lparr>dev_id = 1, op_tlv = Some (MTUTC_REG_ID, EMAD_METHOD_WRITE),
             mtutc_reg = \<lparr>operation = 3, freq_adjustment = - 2147483648, utc_sec = 0,
                          utc_nsec = 0, time_adjustment = 0\<rparr>\<rparr>,
          Log_add_adjfreq (- 2147483648)]) \<and>
   sint (- 2147483648 :: 32 word) = - 2147483648 \<and>
   sint (- 2147483648 :: 32 word) \<noteq> - sint (- 2147483648 :: 32 word)"
  by (simp add: observe_def adjfreq_spc2_eq mtutc_cmd_def example_clock_def example_dev_def
        sx_clock_init_spc2_def static_init_def emit_def Let_def new_events_def)


text \<open>
  C3. For \<open>delta\<close> in \<open>[-32768, 32767]\<close>, \<^verbatim>\<open>__adjtime_spc2\<close> submits one adjust-time
  command (operation 2) whose 32-bit time adjustment has the signed value of \<open>delta\<close>, and
  does nothing else before it: the register is not read. For any other \<open>delta\<close>, on an
  initialised clock, it first reads the register and then submits one set-time command
  (operation 1).
\<close>

theorem adjtime_range_policy:
  "(- 32768 \<le> sint delta \<and> sint delta \<le> 32767 \<longrightarrow>
      (let cmd = mtutc_cmd w \<lparr>operation = 2, freq_adjustment = 0, utc_sec = 0, utc_nsec = 0,
                                time_adjustment = ucast delta\<rparr>;
           err = sx_ACCESS_REG_MTUTC (dev w) cmd
       in map_option (observe w) (adjtime_spc2 w delta) =
            Some (err, Access_reg_mtutc cmd #
                  (if err = 0 then [Log_add_adjtime delta] else [Printk_err ''adj-time'' err]))) \<and>
      sint (ucast delta :: 32 word) = sint delta) \<and>
   ((sint delta < - 32768 \<or> 32767 < sint delta) \<and> initialised w \<longrightarrow>
      (\<exists>cmd evs.
         map_option (observe w) (adjtime_spc2 w delta) =
           Some (sx_ACCESS_REG_MTUTC (dev w) cmd, Readq # Access_reg_mtutc cmd # evs) \<and>
         operation (mtutc_reg cmd) = 1 \<and> submitted evs = []))"
proof (intro conjI impI)
  assume r: "- 32768 \<le> sint delta \<and> sint delta \<le> 32767"
  then show "sint (ucast delta :: 32 word) = sint delta"
    by (simp add: sint_ucast_64_32)
  from r show "let cmd = mtutc_cmd w \<lparr>operation = 2, freq_adjustment = 0, utc_sec = 0, utc_nsec = 0,
                                time_adjustment = ucast delta\<rparr>;
           err = sx_ACCESS_REG_MTUTC (dev w) cmd
       in map_option (observe w) (adjtime_spc2 w delta) =
            Some (err, Access_reg_mtutc cmd #
                  (if err = 0 then [Log_add_adjtime delta] else [Printk_err ''adj-time'' err]))"
    by (simp add: adjtime_spc2_in_range observe_def Let_def)
next
  assume a: "(sint delta < - 32768 \<or> 32767 < sint delta) \<and> initialised w"
  then obtain cb hw where cb: "read_hw_utc_cb w = Some cb"
    "cb (dev w) (trace w) = (hw, trace w @ [Readq])"
    by (auto elim: initialised_cb)
  from a have o: "sint delta < - 32768 \<or> 32767 < sint delta"
    by simp
  show "\<exists>cmd evs.
         map_option (observe w) (adjtime_spc2 w delta) =
           Some (sx_ACCESS_REG_MTUTC (dev w) cmd, Readq # Access_reg_mtutc cmd # evs) \<and>
         operation (mtutc_reg cmd) = 1 \<and> submitted evs = []"
    unfolding adjtime_spc2_fallback [OF o cb]
    by (simp add: observe_def Let_def mtutc_cmd_def)
qed


theorem adjtime_range_policy_witness:
  "- 32768 \<le> sint (32767 :: 64 word) \<and> sint (32767 :: 64 word) \<le> 32767 \<and>
   map_option (observe (example_clock 100 500000000 0))
       (adjtime_spc2 (example_clock 100 500000000 0) 32767) =
     Some (0, [Access_reg_mtutc
                 \<lparr>dev_id = 1, op_tlv = Some (MTUTC_REG_ID, EMAD_METHOD_WRITE),
                  mtutc_reg = \<lparr>operation = 2, freq_adjustment = 0, utc_sec = 0, utc_nsec = 0,
                               time_adjustment = 32767\<rparr>\<rparr>,
               Log_add_adjtime 32767]) \<and>
   sint (ucast (32767 :: 64 word) :: 32 word) = 32767 \<and>
   32767 < sint (32768 :: 64 word) \<and> initialised (example_clock 100 500000000 0) \<and>
   (\<exists>cmd evs.
      map_option (observe (example_clock 100 500000000 0))
          (adjtime_spc2 (example_clock 100 500000000 0) 32768) =
        Some (sx_ACCESS_REG_MTUTC (dev (example_clock 100 500000000 0)) cmd,
              Readq # Access_reg_mtutc cmd # evs) \<and>
      operation (mtutc_reg cmd) = 1 \<and> submitted evs = [])"
  using adjtime_range_policy [where w = "example_clock 100 500000000 0" and delta = 32767]
    adjtime_range_policy [where w = "example_clock 100 500000000 0" and delta = 32768]
  by (simp add: Let_def mtutc_cmd_def example_clock_simps example_dev_simps)

text \<open>
  C5. For \<open>delta\<close> out of \<open>[-32768, 32767]\<close>, with \<open>hw\<close> the time \<^verbatim>\<open>__gettime_spc2\<close> reads,
  \<^verbatim>\<open>__adjtime_spc2\<close> calls \<^verbatim>\<open>__settime_spc2\<close> with a time \<open>ts\<close> whose nanoseconds are
  below \<open>10\<^sup>9\<close> and whose value \<open>sec * 10\<^sup>9 + nsec\<close> is that of \<open>hw\<close> plus \<open>delta\<close>, computed
  in 64 bits (modulo \<open>2\<^sup>6\<^sup>4\<close>).
\<close>

theorem adjtime_fallback_time:
  assumes "sint delta < - 32768 \<or> 32767 < sint delta"
    and "gettime_spc2 w = Some (e, hw, w1)"
  shows "\<exists>ts. adjtime_spc2 w delta =
              Some (case settime_spc2 w1 ts of
                      (err, w2) \<Rightarrow>
                        if err = 0 then (err, emit (Log_add_adjtime delta) w2) else (err, w2)) \<and>
            uint (tv_nsec ts) < 1000000000 \<and>
            uint (tv_sec ts) * 1000000000 + uint (tv_nsec ts)
              = (uint (tv_sec hw) * 1000000000 + uint (tv_nsec hw) + sint delta) mod 2 ^ 64"
proof -
  from assms(2) obtain cb where cb: "read_hw_utc_cb w = Some cb"
    "cb (dev w) (trace w) = (hw, trace w1)" and w1: "w1 = w\<lparr>trace := trace w1\<rparr>"
    by (rule gettime_spc2_Some)
  let ?n = "SX_CLOCK_TIMESPEC_TO_NS hw + delta"
  let ?ts = "\<lparr>tv_sec = ?n div NSEC_PER_SEC, tv_nsec = ?n mod NSEC_PER_SEC\<rparr>"
  from assms(1) cb
  have "adjtime_spc2 w delta =
          Some (case settime_spc2 (w\<lparr>trace := trace w1\<rparr>) ?ts of
                  (err, w2) \<Rightarrow>
                    if err = 0 then (err, emit (Log_add_adjtime delta) w2) else (err, w2))"
    by (auto simp add: adjtime_spc2_def Let_def timespec_update_both split: prod.splits)
  with w1 have "adjtime_spc2 w delta =
          Some (case settime_spc2 w1 ?ts of
                  (err, w2) \<Rightarrow>
                    if err = 0 then (err, emit (Log_add_adjtime delta) w2) else (err, w2))"
    by simp
  moreover have "uint (tv_nsec ?ts) < 1000000000"
    by (simp add: normalise_ns)
  moreover have "uint (tv_sec ?ts) * 1000000000 + uint (tv_nsec ?ts)
      = (uint (tv_sec hw) * 1000000000 + uint (tv_nsec hw) + sint delta) mod 2 ^ 64"
    by (simp add: normalise_ns uint_timespec_to_ns_plus)
  ultimately show ?thesis
    by blast
qed

theorem adjtime_fallback_time_witness:
  "32767 < sint (2000000000 :: 64 word) \<and>
   gettime_spc2 (example_clock 100 500000000 0) =
     Some (0, \<lparr>tv_sec = 100, tv_nsec = 500000000\<rparr>,
           emit Readq (example_clock 100 500000000 0)) \<and>
   (\<exists>ts. adjtime_spc2 (example_clock 100 500000000 0) 2000000000 =
           Some (case settime_spc2 (emit Readq (example_clock 100 500000000 0)) ts of
                   (err, w2) \<Rightarrow>
                     if err = 0 then (err, emit (Log_add_adjtime 2000000000) w2)
                     else (err, w2)) \<and>
         uint (tv_nsec ts) < 1000000000 \<and>
         uint (tv_sec ts) * 1000000000 + uint (tv_nsec ts) = 102500000000)"
proof -
  have g: "gettime_spc2 (example_clock 100 500000000 0) =
     Some (0, \<lparr>tv_sec = 100, tv_nsec = 500000000\<rparr>,
           emit Readq (example_clock 100 500000000 0))"
    by (simp add: example_gettime)
  have d: "sint (2000000000 :: 64 word) < - 32768 \<or> 32767 < sint (2000000000 :: 64 word)"
    by simp
  from adjtime_fallback_time [OF d g] g show ?thesis
    by simp
qed

lemma adjtime_fallback_example:
  "map_option (observe (example_clock 100 500000000 0))
       (adjtime_spc2 (example_clock 100 500000000 0) 2000000000) =
     Some (0, [Readq,
               Access_reg_mtutc
                 \<lparr>dev_id = 1, op_tlv = Some (MTUTC_REG_ID, EMAD_METHOD_WRITE),
                  mtutc_reg = \<lparr>operation = 1, freq_adjustment = 0, utc_sec = 102,
                               utc_nsec = 500000000, time_adjustment = 0\<rparr>\<rparr>,
               Log_add_settime 102500000000, Log_add_adjtime 2000000000])"
proof -
  have d: "sint (2000000000 :: 64 word) < - 32768 \<or> 32767 < sint (2000000000 :: 64 word)"
    by simp
  have cb: "read_cr_space_utc_spc2 (dev (example_clock 100 500000000 0))
              (trace (example_clock 100 500000000 0)) =
            (\<lparr>tv_sec = 100, tv_nsec = 500000000\<rparr>,
             trace (example_clock 100 500000000 0) @ [Readq])"
    by (simp add: example_clock_simps example_read)
  show ?thesis
    unfolding adjtime_spc2_fallback [OF d example_clock_simps(1) cb]
    by (simp add: Let_def observe_def SX_CLOCK_TIMESPEC_TO_NS_def NSEC_PER_SEC_def
          mtutc_cmd_def new_events_def example_clock_simps example_dev_simps)
qed

subsection \<open>Logging, failure and initialisation\<close>

lemma observe_adjfreq:
  "observe w (adjfreq_spc2 w d) =
     (let cmd = mtutc_cmd w \<lparr>operation = 3, freq_adjustment = - d, utc_sec = 0, utc_nsec = 0,
                              time_adjustment = 0\<rparr>;
          err = sx_ACCESS_REG_MTUTC (dev w) cmd
      in (err, Access_reg_mtutc cmd #
               (if err = 0 then [Log_add_adjfreq d] else [Printk_err ''adj-freq'' err])))"
  by (simp add: observe_def adjfreq_spc2_eq Let_def)

lemma observe_settime:
  "observe w (settime_spc2 w ts) =
     (let cmd = mtutc_cmd w \<lparr>operation = 1, freq_adjustment = 0, utc_sec = ucast (tv_sec ts),
                              utc_nsec = ucast (tv_nsec ts), time_adjustment = 0\<rparr>;
          err = sx_ACCESS_REG_MTUTC (dev w) cmd
      in (err, Access_reg_mtutc cmd #
               (if err = 0 then [Log_add_settime (tv_sec ts * NSEC_PER_SEC + tv_nsec ts)]
                else [Printk_err ''set-time'' err])))"
  by (simp add: observe_def settime_spc2_eq Let_def)

lemma observe_adjtime_in_range:
  assumes "- 32768 \<le> sint delta" "sint delta \<le> 32767"
  shows "\<exists>r. adjtime_spc2 w delta = Some r \<and>
     observe w r =
     (let cmd = mtutc_cmd w \<lparr>operation = 2, freq_adjustment = 0, utc_sec = 0, utc_nsec = 0,
                              time_adjustment = ucast delta\<rparr>;
          err = sx_ACCESS_REG_MTUTC (dev w) cmd
      in (err, Access_reg_mtutc cmd #
               (if err = 0 then [Log_add_adjtime delta] else [Printk_err ''adj-time'' err])))"
  by (simp add: adjtime_spc2_in_range [OF assms] observe_def Let_def)

lemma observe_adjtime_fallback:
  assumes "sint delta < - 32768 \<or> 32767 < sint delta" "initialised w"
  shows "\<exists>r cmd ns. adjtime_spc2 w delta = Some r \<and> operation (mtutc_reg cmd) = 1 \<and>
     observe w r =
       (sx_ACCESS_REG_MTUTC (dev w) cmd,
        Readq # Access_reg_mtutc cmd #
          (if sx_ACCESS_REG_MTUTC (dev w) cmd = 0
           then [Log_add_settime ns, Log_add_adjtime delta]
           else [Printk_err ''set-time'' (sx_ACCESS_REG_MTUTC (dev w) cmd)]))"
proof -
  from assms(2) obtain cb hw where cb: "read_hw_utc_cb w = Some cb"
    "cb (dev w) (trace w) = (hw, trace w @ [Readq])"
    by (rule initialised_cb)
  let ?n = "SX_CLOCK_TIMESPEC_TO_NS hw + delta"
  let ?cmd = "mtutc_cmd w \<lparr>operation = 1, freq_adjustment = 0,
                utc_sec = ucast (?n div NSEC_PER_SEC), utc_nsec = ucast (?n mod NSEC_PER_SEC),
                time_adjustment = 0\<rparr>"
  let ?ns = "?n div NSEC_PER_SEC * NSEC_PER_SEC + ?n mod NSEC_PER_SEC"
  let ?r = "(sx_ACCESS_REG_MTUTC (dev w) ?cmd,
             w\<lparr>trace := trace w @ [Readq] @ Access_reg_mtutc ?cmd #
                (if sx_ACCESS_REG_MTUTC (dev w) ?cmd = 0
                 then [Log_add_settime ?ns, Log_add_adjtime delta]
                 else [Printk_err ''set-time'' (sx_ACCESS_REG_MTUTC (dev w) ?cmd)])\<rparr>)"
  have "adjtime_spc2 w delta = Some ?r"
    using adjtime_spc2_fallback [OF assms(1) cb] by (simp add: Let_def)
  moreover have "operation (mtutc_reg ?cmd) = 1"
    by (simp add: mtutc_cmd_def)
  moreover have "observe w ?r =
       (sx_ACCESS_REG_MTUTC (dev w) ?cmd,
        Readq # Access_reg_mtutc ?cmd #
          (if sx_ACCESS_REG_MTUTC (dev w) ?cmd = 0
           then [Log_add_settime ?ns, Log_add_adjtime delta]
           else [Printk_err ''set-time'' (sx_ACCESS_REG_MTUTC (dev w) ?cmd)]))"
    by (simp add: observe_def)
  ultimately show ?thesis
    by blast
qed


text \<open>
  C7. Each adjustment call that returns has submitted exactly one command, and what it
  returns is the code with which the device answered that command, unchanged. When that code
  is not zero, the call has added no entry to any adjustment log. \<^verbatim>\<open>__adjtime_spc2\<close>
  returns whenever \<open>delta\<close> is in range or the clock is initialised.
\<close>

theorem transport_error_returned_unlogged:
  "(\<exists>cmd. submitted (snd (observe w (adjfreq_spc2 w d))) = [cmd] \<and>
          fst (adjfreq_spc2 w d) = sx_ACCESS_REG_MTUTC (dev w) cmd \<and>
          (sx_ACCESS_REG_MTUTC (dev w) cmd \<noteq> 0 \<longrightarrow>
             audit_entries (snd (observe w (adjfreq_spc2 w d))) = [])) \<and>
   (\<exists>cmd. submitted (snd (observe w (settime_spc2 w ts))) = [cmd] \<and>
          fst (settime_spc2 w ts) = sx_ACCESS_REG_MTUTC (dev w) cmd \<and>
          (sx_ACCESS_REG_MTUTC (dev w) cmd \<noteq> 0 \<longrightarrow>
             audit_entries (snd (observe w (settime_spc2 w ts))) = [])) \<and>
   ((- 32768 \<le> sint delta \<and> sint delta \<le> 32767) \<or> initialised w \<longrightarrow>
      (\<exists>r cmd. adjtime_spc2 w delta = Some r \<and>
          submitted (snd (observe w r)) = [cmd] \<and>
          fst r = sx_ACCESS_REG_MTUTC (dev w) cmd \<and>
          (sx_ACCESS_REG_MTUTC (dev w) cmd \<noteq> 0 \<longrightarrow> audit_entries (snd (observe w r)) = [])))"
proof (intro conjI impI)
  show "\<exists>cmd. submitted (snd (observe w (adjfreq_spc2 w d))) = [cmd] \<and>
          fst (adjfreq_spc2 w d) = sx_ACCESS_REG_MTUTC (dev w) cmd \<and>
          (sx_ACCESS_REG_MTUTC (dev w) cmd \<noteq> 0 \<longrightarrow>
             audit_entries (snd (observe w (adjfreq_spc2 w d))) = [])"
    by (simp add: observe_adjfreq Let_def audit_entries_def) (simp add: adjfreq_spc2_eq)
  show "\<exists>cmd. submitted (snd (observe w (settime_spc2 w ts))) = [cmd] \<and>
          fst (settime_spc2 w ts) = sx_ACCESS_REG_MTUTC (dev w) cmd \<and>
          (sx_ACCESS_REG_MTUTC (dev w) cmd \<noteq> 0 \<longrightarrow>
             audit_entries (snd (observe w (settime_spc2 w ts))) = [])"
    by (simp add: observe_settime Let_def audit_entries_def) (simp add: settime_spc2_eq)
next
  assume "(- 32768 \<le> sint delta \<and> sint delta \<le> 32767) \<or> initialised w"
  then consider "- 32768 \<le> sint delta" "sint delta \<le> 32767"
    | "sint delta < - 32768 \<or> 32767 < sint delta" "initialised w"
    by linarith
  then show "\<exists>r cmd. adjtime_spc2 w delta = Some r \<and>
          submitted (snd (observe w r)) = [cmd] \<and>
          fst r = sx_ACCESS_REG_MTUTC (dev w) cmd \<and>
          (sx_ACCESS_REG_MTUTC (dev w) cmd \<noteq> 0 \<longrightarrow> audit_entries (snd (observe w r)) = [])"
  proof cases
    case 1
    from observe_adjtime_in_range [OF 1, of w] obtain r where
      r: "adjtime_spc2 w delta = Some r" and
      o: "observe w r =
        (let cmd = mtutc_cmd w \<lparr>operation = 2, freq_adjustment = 0, utc_sec = 0, utc_nsec = 0,
                              time_adjustment = ucast delta\<rparr>;
          err = sx_ACCESS_REG_MTUTC (dev w) cmd
         in (err, Access_reg_mtutc cmd #
               (if err = 0 then [Log_add_adjtime delta] else [Printk_err ''adj-time'' err])))"
      by blast
    have "fst r = fst (observe w r)"
      by (simp add: observe_def)
    with r o show ?thesis
      by (simp add: Let_def audit_entries_def)
  next
    case 2
    from observe_adjtime_fallback [OF 2] obtain r cmd ns where
      r: "adjtime_spc2 w delta = Some r" and
      o: "observe w r =
       (sx_ACCESS_REG_MTUTC (dev w) cmd,
        Readq # Access_reg_mtutc cmd #
          (if sx_ACCESS_REG_MTUTC (dev w) cmd = 0
           then [Log_add_settime ns, Log_add_adjtime delta]
           else [Printk_err ''set-time'' (sx_ACCESS_REG_MTUTC (dev w) cmd)]))"
      by blast
    have "fst r = fst (observe w r)"
      by (simp add: observe_def)
    with r o show ?thesis
      by (simp add: audit_entries_def)
  qed
qed


theorem transport_error_returned_unlogged_witness:
  "fst (adjfreq_spc2 (example_clock 100 500000000 (- 5)) 1000) = - 5 \<and>
   audit_entries (snd (observe (example_clock 100 500000000 (- 5))
     (adjfreq_spc2 (example_clock 100 500000000 (- 5)) 1000))) = [] \<and>
   fst (settime_spc2 (example_clock 100 500000000 (- 5)) \<lparr>tv_sec = 7, tv_nsec = 9\<rparr>) = - 5 \<and>
   audit_entries (snd (observe (example_clock 100 500000000 (- 5))
     (settime_spc2 (example_clock 100 500000000 (- 5)) \<lparr>tv_sec = 7, tv_nsec = 9\<rparr>))) = [] \<and>
   initialised (example_clock 100 500000000 (- 5)) \<and>
   (\<exists>r. adjtime_spc2 (example_clock 100 500000000 (- 5)) 32768 = Some r \<and> fst r = - 5 \<and>
        audit_entries (snd (observe (example_clock 100 500000000 (- 5)) r)) = [])"
  using transport_error_returned_unlogged
    [where w = "example_clock 100 500000000 (- 5)" and d = 1000
       and ts = "\<lparr>tv_sec = 7, tv_nsec = 9\<rparr>" and delta = 32768]
  by (auto simp add: example_clock_simps example_dev_simps)

text \<open>
  C1. A successful \<^verbatim>\<open>__adjfreq_spc2\<close>, \<^verbatim>\<open>__settime_spc2\<close> or in-range \<^verbatim>\<open>__adjtime_spc2\<close>
  does two things: it submits a command, which the device accepts, and then adds one log
  entry. A successful out-of-range \<^verbatim>\<open>__adjtime_spc2\<close> reads the register, submits a set-time
  command, which the device accepts, and then adds two log entries: the set-time entry of
  \<^verbatim>\<open>__settime_spc2\<close> and the adjust-time entry with the original \<open>delta\<close>.
\<close>

theorem audit_entries_after_success:
  "(fst (adjfreq_spc2 w d) = 0 \<longrightarrow>
      (\<exists>cmd. snd (observe w (adjfreq_spc2 w d)) = [Access_reg_mtutc cmd, Log_add_adjfreq d] \<and>
             sx_ACCESS_REG_MTUTC (dev w) cmd = 0)) \<and>
   (fst (settime_spc2 w ts) = 0 \<longrightarrow>
      (\<exists>cmd. snd (observe w (settime_spc2 w ts)) =
               [Access_reg_mtutc cmd, Log_add_settime (tv_sec ts * NSEC_PER_SEC + tv_nsec ts)] \<and>
             sx_ACCESS_REG_MTUTC (dev w) cmd = 0)) \<and>
   (- 32768 \<le> sint delta \<and> sint delta \<le> 32767 \<and> adjtime_spc2 w delta = Some (0, w') \<longrightarrow>
      (\<exists>cmd. new_events w w' = [Access_reg_mtutc cmd, Log_add_adjtime delta] \<and>
             sx_ACCESS_REG_MTUTC (dev w) cmd = 0)) \<and>
   ((sint delta < - 32768 \<or> 32767 < sint delta) \<and> initialised w \<and>
    adjtime_spc2 w delta = Some (0, w') \<longrightarrow>
      (\<exists>cmd ns. new_events w w' =
                  [Readq, Access_reg_mtutc cmd, Log_add_settime ns, Log_add_adjtime delta] \<and>
                operation (mtutc_reg cmd) = 1 \<and> sx_ACCESS_REG_MTUTC (dev w) cmd = 0))"
proof (intro conjI impI)
  assume "fst (adjfreq_spc2 w d) = 0"
  then show "\<exists>cmd. snd (observe w (adjfreq_spc2 w d)) = [Access_reg_mtutc cmd, Log_add_adjfreq d] \<and>
             sx_ACCESS_REG_MTUTC (dev w) cmd = 0"
    by (simp add: observe_adjfreq Let_def) (simp add: adjfreq_spc2_eq)
next
  assume "fst (settime_spc2 w ts) = 0"
  then show "\<exists>cmd. snd (observe w (settime_spc2 w ts)) =
               [Access_reg_mtutc cmd, Log_add_settime (tv_sec ts * NSEC_PER_SEC + tv_nsec ts)] \<and>
             sx_ACCESS_REG_MTUTC (dev w) cmd = 0"
    by (simp add: observe_settime Let_def) (simp add: settime_spc2_eq)
next
  assume a: "- 32768 \<le> sint delta \<and> sint delta \<le> 32767 \<and> adjtime_spc2 w delta = Some (0, w')"
  then have "- 32768 \<le> sint delta" "sint delta \<le> 32767"
    by simp_all
  from observe_adjtime_in_range [OF this, of w] a
  show "\<exists>cmd. new_events w w' = [Access_reg_mtutc cmd, Log_add_adjtime delta] \<and>
             sx_ACCESS_REG_MTUTC (dev w) cmd = 0"
    by (auto simp add: observe_def Let_def split: if_splits)
next
  assume a: "(sint delta < - 32768 \<or> 32767 < sint delta) \<and> initialised w \<and>
    adjtime_spc2 w delta = Some (0, w')"
  then have "sint delta < - 32768 \<or> 32767 < sint delta" "initialised w"
    by simp_all
  from observe_adjtime_fallback [OF this] a
  show "\<exists>cmd ns. new_events w w' =
                  [Readq, Access_reg_mtutc cmd, Log_add_settime ns, Log_add_adjtime delta] \<and>
                operation (mtutc_reg cmd) = 1 \<and> sx_ACCESS_REG_MTUTC (dev w) cmd = 0"
    by (auto simp add: observe_def split: if_splits)
qed


theorem audit_entries_after_success_witness:
  "fst (adjfreq_spc2 (example_clock 100 500000000 0) 1000) = 0 \<and>
   (\<exists>cmd. snd (observe (example_clock 100 500000000 0)
                 (adjfreq_spc2 (example_clock 100 500000000 0) 1000)) =
            [Access_reg_mtutc cmd, Log_add_adjfreq 1000]) \<and>
   fst (settime_spc2 (example_clock 100 500000000 0) \<lparr>tv_sec = 7, tv_nsec = 9\<rparr>) = 0 \<and>
   (\<exists>cmd. snd (observe (example_clock 100 500000000 0)
                 (settime_spc2 (example_clock 100 500000000 0) \<lparr>tv_sec = 7, tv_nsec = 9\<rparr>)) =
            [Access_reg_mtutc cmd, Log_add_settime 7000000009]) \<and>
   - 32768 \<le> sint (32767 :: 64 word) \<and> sint (32767 :: 64 word) \<le> 32767 \<and>
   (\<exists>w' cmd. adjtime_spc2 (example_clock 100 500000000 0) 32767 = Some (0, w') \<and>
      new_events (example_clock 100 500000000 0) w' =
        [Access_reg_mtutc cmd, Log_add_adjtime 32767]) \<and>
   32767 < sint (32768 :: 64 word) \<and> initialised (example_clock 100 500000000 0) \<and>
   (\<exists>w' cmd ns. adjtime_spc2 (example_clock 100 500000000 0) 32768 = Some (0, w') \<and>
      new_events (example_clock 100 500000000 0) w' =
        [Readq, Access_reg_mtutc cmd, Log_add_settime ns, Log_add_adjtime 32768])"
proof -
  let ?w = "example_clock 100 500000000 0"
  have f: "fst (adjfreq_spc2 ?w 1000) = 0"
    by (simp add: adjfreq_spc2_eq example_clock_simps example_dev_simps)
  have s: "fst (settime_spc2 ?w \<lparr>tv_sec = 7, tv_nsec = 9\<rparr>) = 0"
    by (simp add: settime_spc2_eq example_clock_simps example_dev_simps)
  have i: "initialised ?w"
    by (simp add: example_clock_simps)
  obtain w1 where a1: "adjtime_spc2 ?w 32767 = Some (0, w1)"
    using observe_adjtime_in_range [of 32767 ?w]
    by (auto simp add: observe_def Let_def example_clock_simps example_dev_simps)
  obtain w2 where a2: "adjtime_spc2 ?w 32768 = Some (0, w2)"
    using observe_adjtime_fallback [of 32768 ?w]
    by (auto simp add: observe_def example_clock_simps example_dev_simps)
  from audit_entries_after_success
    [where w = ?w and d = 1000 and ts = "\<lparr>tv_sec = 7, tv_nsec = 9\<rparr>" and delta = 32767
       and w' = w1]
    audit_entries_after_success
    [where w = ?w and d = 1000 and ts = "\<lparr>tv_sec = 7, tv_nsec = 9\<rparr>" and delta = 32768
       and w' = w2]
    f s i a1 a2
  show ?thesis
    by (simp add: NSEC_PER_SEC_def) blast
qed

theorem adjtime_fallback_two_entries_counterexample:
  "map_option (observe (example_clock 100 500000000 0))
       (adjtime_spc2 (example_clock 100 500000000 0) 32768) =
     Some (0, [Readq,
               Access_reg_mtutc
                 \<lparr>dev_id = 1, op_tlv = Some (MTUTC_REG_ID, EMAD_METHOD_WRITE),
                  mtutc_reg = \<lparr>operation = 1, freq_adjustment = 0, utc_sec = 100,
                               utc_nsec = 500032768, time_adjustment = 0\<rparr>\<rparr>,
               Log_add_settime 100500032768, Log_add_adjtime 32768]) \<and>
   map_option (audit_entries \<circ> snd \<circ> observe (example_clock 100 500000000 0))
       (adjtime_spc2 (example_clock 100 500000000 0) 32768) =
     Some [Log_add_settime 100500032768, Log_add_adjtime 32768]"
proof -
  have d: "sint (32768 :: 64 word) < - 32768 \<or> 32767 < sint (32768 :: 64 word)"
    by simp
  have cb: "read_cr_space_utc_spc2 (dev (example_clock 100 500000000 0))
              (trace (example_clock 100 500000000 0)) =
            (\<lparr>tv_sec = 100, tv_nsec = 500000000\<rparr>,
             trace (example_clock 100 500000000 0) @ [Readq])"
    by (simp add: example_clock_simps example_read)
  show ?thesis
    unfolding adjtime_spc2_fallback [OF d example_clock_simps(1) cb]
    by (simp add: Let_def observe_def SX_CLOCK_TIMESPEC_TO_NS_def NSEC_PER_SEC_def
          mtutc_cmd_def new_events_def audit_entries_def example_clock_simps example_dev_simps)
qed


lemma mtutc_cmd_cb [simp]: "mtutc_cmd (w\<lparr>read_hw_utc_cb := cb\<rparr>) reg = mtutc_cmd w reg"
  by (simp add: mtutc_cmd_def)

lemma gettime_after_init:
  "gettime_spc2 (snd (sx_clock_init_spc2 w priv)) =
     Some (0, \<lparr>tv_sec = drop_bit 32 (swab64 (raw_readq (dev w))),
               tv_nsec = take_bit 32 (swab64 (raw_readq (dev w)))\<rparr>,
           emit Readq (snd (sx_clock_init_spc2 w priv)))"
  "gettime_spc2 (snd (sx_clock_init_spc3 w priv)) =
     Some (0, \<lparr>tv_sec = take_bit 32 (swab64 (raw_readq (dev w))),
               tv_nsec = drop_bit 32 (swab64 (raw_readq (dev w)))\<rparr>,
           emit Readq (snd (sx_clock_init_spc3 w priv)))"
  by (simp_all add: gettime_spc2_def sx_clock_init_spc2_def sx_clock_init_spc3_def Let_def
        emit_def read_cr_space_utc_spc2_eq read_cr_space_utc_spc3_eq)

text \<open>
  C8. The file has no error for an uninitialised clock. With the statics as loaded, the reader
  pointer is null: \<^verbatim>\<open>__gettime_spc2\<close> and an out-of-range \<^verbatim>\<open>__adjtime_spc2\<close> call through
  it and do not return. \<^verbatim>\<open>__adjfreq_spc2\<close>, \<^verbatim>\<open>__settime_spc2\<close> and an in-range
  \<^verbatim>\<open>__adjtime_spc2\<close> do not use the pointer: with a null pointer they do what they do with
  any other. After either initialisation \<^verbatim>\<open>__gettime_spc2\<close> returns 0 and the time the
  bound reader decodes.
\<close>

theorem uninitialised_clock:
  "gettime_spc2 (static_init d) = None \<and>
   (sint delta < - 32768 \<or> 32767 < sint delta \<longrightarrow> adjtime_spc2 (static_init d) delta = None) \<and>
   observe (w\<lparr>read_hw_utc_cb := None\<rparr>) (adjfreq_spc2 (w\<lparr>read_hw_utc_cb := None\<rparr>) f)
     = observe w (adjfreq_spc2 w f) \<and>
   observe (w\<lparr>read_hw_utc_cb := None\<rparr>) (settime_spc2 (w\<lparr>read_hw_utc_cb := None\<rparr>) ts)
     = observe w (settime_spc2 w ts) \<and>
   (- 32768 \<le> sint delta \<and> sint delta \<le> 32767 \<longrightarrow>
      map_option (observe (w\<lparr>read_hw_utc_cb := None\<rparr>))
          (adjtime_spc2 (w\<lparr>read_hw_utc_cb := None\<rparr>) delta)
        = map_option (observe w) (adjtime_spc2 w delta)) \<and>
   gettime_spc2 (snd (sx_clock_init_spc2 w priv)) =
     Some (0, \<lparr>tv_sec = drop_bit 32 (swab64 (raw_readq (dev w))),
               tv_nsec = take_bit 32 (swab64 (raw_readq (dev w)))\<rparr>,
           emit Readq (snd (sx_clock_init_spc2 w priv))) \<and>
   gettime_spc2 (snd (sx_clock_init_spc3 w priv)) =
     Some (0, \<lparr>tv_sec = take_bit 32 (swab64 (raw_readq (dev w))),
               tv_nsec = drop_bit 32 (swab64 (raw_readq (dev w)))\<rparr>,
           emit Readq (snd (sx_clock_init_spc3 w priv)))"
proof (intro conjI impI)
  show "gettime_spc2 (static_init d) = None"
    by (simp add: gettime_spc2_def static_init_def)
  show "adjtime_spc2 (static_init d) delta = None"
    if "sint delta < - 32768 \<or> 32767 < sint delta"
    using that by (auto simp add: adjtime_spc2_def static_init_def)
  show "observe (w\<lparr>read_hw_utc_cb := None\<rparr>) (adjfreq_spc2 (w\<lparr>read_hw_utc_cb := None\<rparr>) f)
     = observe w (adjfreq_spc2 w f)"
    by (simp add: observe_adjfreq)
  show "observe (w\<lparr>read_hw_utc_cb := None\<rparr>) (settime_spc2 (w\<lparr>read_hw_utc_cb := None\<rparr>) ts)
     = observe w (settime_spc2 w ts)"
    by (simp add: observe_settime)
  show "map_option (observe (w\<lparr>read_hw_utc_cb := None\<rparr>))
          (adjtime_spc2 (w\<lparr>read_hw_utc_cb := None\<rparr>) delta)
        = map_option (observe w) (adjtime_spc2 w delta)"
    if "- 32768 \<le> sint delta \<and> sint delta \<le> 32767"
    using that by (simp add: adjtime_spc2_in_range observe_def new_events_def)
qed (rule gettime_after_init)+

theorem uninitialised_clock_witness:
  "32767 < sint (32768 :: 64 word) \<and>
   adjtime_spc2 (static_init (example_dev 100 500000000 0)) 32768 = None \<and>
   - 32768 \<le> sint (5 :: 64 word) \<and> sint (5 :: 64 word) \<le> 32767 \<and>
   map_option (observe (example_clock 100 500000000 0\<lparr>read_hw_utc_cb := None\<rparr>))
       (adjtime_spc2 (example_clock 100 500000000 0\<lparr>read_hw_utc_cb := None\<rparr>) 5)
     = map_option (observe (example_clock 100 500000000 0))
         (adjtime_spc2 (example_clock 100 500000000 0) 5)"
  using uninitialised_clock [where d = "example_dev 100 500000000 0" and delta = 32768]
    uninitialised_clock [where w = "example_clock 100 500000000 0" and delta = 5]
  by simp

theorem uninitialised_counterexample:
  "gettime_spc2 (static_init (example_dev 100 500000000 0)) = None \<and>
   observe (static_init (example_dev 100 500000000 0))
       (adjfreq_spc2 (static_init (example_dev 100 500000000 0)) 1000) =
     (0, [Access_reg_mtutc
            \<lparr>dev_id = 1, op_tlv = Some (MTUTC_REG_ID, EMAD_METHOD_WRITE),
             mtutc_reg = \<lparr>operation = 3, freq_adjustment = - 1000, utc_sec = 0, utc_nsec = 0,
                          time_adjustment = 0\<rparr>\<rparr>,
          Log_add_adjfreq 1000])"
  by (simp add: gettime_spc2_def observe_adjfreq Let_def mtutc_cmd_def static_init_def
        example_dev_simps)

lemma example_read_spc3:
  "read_cr_space_utc_spc3 (example_dev sec nsec err) tr =
     (\<lparr>tv_sec = ucast nsec, tv_nsec = ucast sec\<rparr>, tr @ [Readq])"
  unfolding read_cr_space_utc_spc3_eq example_dev_def
  by (simp only: sx_dev.simps swab64_swab64 example_high_half example_low_half)

lemma readers_differ: "read_cr_space_utc_spc2 \<noteq> read_cr_space_utc_spc3"
proof
  assume "read_cr_space_utc_spc2 = read_cr_space_utc_spc3"
  then have "read_cr_space_utc_spc2 (example_dev 0 1 0) [] = read_cr_space_utc_spc3 (example_dev 0 1 0) []"
    by simp
  then show False
    by (simp add: example_read example_read_spc3)
qed

text \<open>
  C9. \<^verbatim>\<open>sx_clock_init_spc2\<close> sets the seconds offset to 0 and binds the SPC2 reader;
  \<^verbatim>\<open>sx_clock_init_spc3\<close> sets it to 4 and binds the SPC3 reader, which is a different
  function. Both register the one table \<open>clock_info_spc2\<close> and return what the registration
  returns.
\<close>

theorem init_binds_reader_and_offset:
  "sx_clock_init_spc2 w priv =
     (sx_clock_register priv clock_info_spc2,
      w\<lparr>read_hw_utc_cb := Some read_cr_space_utc_spc2, sec_offset := 0,
        trace := trace w @ [Clock_register clock_info_spc2]\<rparr>) \<and>
   sx_clock_init_spc3 w priv =
     (sx_clock_register priv clock_info_spc2,
      w\<lparr>read_hw_utc_cb := Some read_cr_space_utc_spc3, sec_offset := 4,
        trace := trace w @ [Clock_register clock_info_spc2]\<rparr>) \<and>
   new_events w (snd (sx_clock_init_spc2 w priv)) = [Clock_register clock_info_spc2] \<and>
   new_events w (snd (sx_clock_init_spc3 w priv)) = [Clock_register clock_info_spc2] \<and>
   read_cr_space_utc_spc2 \<noteq> read_cr_space_utc_spc3"
  by (simp add: sx_clock_init_spc2_def sx_clock_init_spc3_def Let_def emit_def new_events_def
        readers_differ)

end
